theory Spec2Isabelle
  imports Main
begin

section \<open>JavaScript values and task objects\<close>

text \<open>
  The client handles tasks as plain JavaScript objects that arrive as JSON, over HTTP or
  over the socket. A property value is a JSON value; a nested object (the \<open>creator\<close> and
  \<open>assignedTo\<close> of a task) is kept as a list of its properties. Reading a property that
  an object does not have yields \<open>undefined\<close>, which is \<open>None\<close> here. \<open>JDate\<close> is a
  \<open>Date\<close> object: its time value in milliseconds, or \<open>None\<close> for an Invalid Date.
\<close>

datatype jsval =
    JNull
  | JBool bool
  | JNum int
  | JStr string
  | JDate "int option"
  | JObj "(string \<times> jsval) list"

type_synonym jsobj = "string \<rightharpoonup> jsval"

type_synonym task = jsobj

text \<open>
  \<open>a === b\<close>. On \<open>undefined\<close>, \<open>null\<close>, booleans, (finite) numbers and strings it
  compares the values. On objects it compares references; the objects met here are
  deserialised from different messages, so no two of them are the same reference.
\<close>

fun is_object :: "jsval option \<Rightarrow> bool" where
  "is_object (Some (JObj ps)) = True"
| "is_object (Some (JDate d)) = True"
| "is_object v = False"

definition strict_eq :: "jsval option \<Rightarrow> jsval option \<Rightarrow> bool" where
  "strict_eq a b = (\<not> is_object a \<and> a = b)"

text \<open>The truthiness of a value, as \<open>&&\<close>, \<open>||\<close> and \<open>if\<close> test it.\<close>

fun truthy :: "jsval option \<Rightarrow> bool" where
  "truthy None = False"
| "truthy (Some JNull) = False"
| "truthy (Some (JBool b)) = b"
| "truthy (Some (JNum n)) = (n \<noteq> 0)"
| "truthy (Some (JStr s)) = (s \<noteq> [])"
| "truthy (Some (JDate d)) = True"
| "truthy (Some (JObj ps)) = True"

text \<open>The object spread \<open>{ ...a, ...b }\<close>: the properties of \<open>a\<close>, overridden by those of \<open>b\<close>.\<close>

definition spread :: "jsobj \<Rightarrow> jsobj \<Rightarrow> jsobj" where
  "spread a b = a ++ b"

section \<open>The task view model: \<open>useTasks\<close>\<close>

text \<open>
  The three socket listeners of \<open>useTasks\<close> (hooks/useTasks.js). Each one is the state
  update it passes to \<open>setTasks\<close>: a function from the previous collection to the next.

  \<^verbatim>\<open>prevTasks.map((task) => task.id === updatedTask.id ? { ...task, ...updatedTask } : task)\<close>
\<close>

definition applyUpdate :: "task \<Rightarrow> task list \<Rightarrow> task list" where
  "applyUpdate updatedTask prevTasks =
     map (\<lambda>task. if strict_eq (task ''id'') (updatedTask ''id'')
                 then spread task updatedTask else task) prevTasks"

text \<open>\<^verbatim>\<open>[newTask, ...prevTasks]\<close>\<close>

definition applyCreate :: "task \<Rightarrow> task list \<Rightarrow> task list" where
  "applyCreate newTask prevTasks = newTask # prevTasks"

text \<open>\<^verbatim>\<open>prevTasks.filter((task) => task.id !== deletedTaskId)\<close>\<close>

definition applyDelete :: "jsval option \<Rightarrow> task list \<Rightarrow> task list" where
  "applyDelete deletedTaskId prevTasks =
     filter (\<lambda>task. \<not> strict_eq (task ''id'') deletedTaskId) prevTasks"

section \<open>The remote store accessor: \<open>lib/apiClient.js\<close>\<close>

text \<open>
  The REST service is not part of the client. A call of \<open>taskAPI\<close> is awaited; it either
  rejects with an axios error (\<open>Inl\<close>) or resolves with a response (\<open>Inr\<close>). Of an error the
  client reads \<open>err.response?.status\<close> and \<open>err.response?.data?.message\<close>; of a response
  it reads \<open>response.data?.data\<close>.
\<close>

record error_response =
  err_status :: "jsval option"
  err_data :: "jsobj option"

record axios_error =
  err_response :: "error_response option"

record 'a response_body =
  body_data :: "'a option"

record 'a axios_response =
  resp_data :: "'a response_body option"

text \<open>\<^verbatim>\<open>err.response?.status\<close>\<close>

definition status_of :: "axios_error \<Rightarrow> jsval option" where
  "status_of err = (case err_response err of None \<Rightarrow> None | Some r \<Rightarrow> err_status r)"

text \<open>\<^verbatim>\<open>err.response?.data?.message\<close>\<close>

definition message_of :: "axios_error \<Rightarrow> jsval option" where
  "message_of err =
     (case err_response err of
        None \<Rightarrow> None
      | Some r \<Rightarrow> (case err_data r of None \<Rightarrow> None | Some d \<Rightarrow> d ''message''))"

text \<open>\<^verbatim>\<open>response.data?.data\<close>\<close>

definition data_of :: "'a axios_response \<Rightarrow> 'a option" where
  "data_of response = (case resp_data response of None \<Rightarrow> None | Some b \<Rightarrow> body_data b)"

text \<open>\<^verbatim>\<open>a || 'fallback'\<close> on a message.\<close>

definition or_else :: "jsval option \<Rightarrow> string \<Rightarrow> jsval" where
  "or_else v fallback =
     (case v of
        None \<Rightarrow> JStr fallback
      | Some x \<Rightarrow> if truthy (Some x) then x else JStr fallback)"

record task_query =
  q_status :: "jsval option"
  q_priority :: "jsval option"
  q_sortBy :: "jsval option"

record taskAPI =
  getAllTasks :: "task_query \<Rightarrow> axios_error + task list axios_response"
  getAssignedTasks :: "axios_error + task list axios_response"
  getCreatedTasks :: "axios_error + task list axios_response"
  getOverdueTasks :: "axios_error + task list axios_response"
  createTask :: "jsobj \<Rightarrow> axios_error + task axios_response"
  updateTask :: "jsval option \<Rightarrow> jsobj \<Rightarrow> axios_error + task axios_response"
  deleteTask :: "jsval option \<Rightarrow> axios_error + unit axios_response"

section \<open>The change notification channel: \<open>lib/socket.js\<close>\<close>

text \<open>What the client emits on a socket: the event name with its payload.\<close>

datatype event =
    UserJoin "jsval option"
  | TaskUpdated "task option"
  | TaskCreated "task option"
  | TaskDeleted "jsval option"
  | TaskAssigned "jsval option" "jsval option" "jsval option"

text \<open>
  What \<open>socket.on\<close> registers: the two listeners that \<open>initSocket\<close> installs (the one on
  \<open>connect\<close> holds the \<open>userId\<close> of its closure), or a caller's callback, known by its
  reference.
\<close>

datatype listener =
    JoinOnConnect "jsval option"
  | LogDisconnect
  | Callback nat

text \<open>
  A socket.io client instance, as far as the module uses it: its \<open>connected\<close> flag, the
  events emitted on it (oldest first) and its registered listeners (in registration
  order).
\<close>

record transport =
  connected :: bool
  sent :: "event list"
  listeners :: "(string \<times> listener) list"

definition emit :: "event \<Rightarrow> transport \<Rightarrow> transport" where
  "emit ev t = t\<lparr>sent := sent t @ [ev]\<rparr>"

definition on :: "string \<Rightarrow> listener \<Rightarrow> transport \<Rightarrow> transport" where
  "on name l t = t\<lparr>listeners := listeners t @ [(name, l)]\<rparr>"

text \<open>\<^verbatim>\<open>io(API_URL, {...})\<close>: a new instance, not yet connected.\<close>

definition io :: transport where
  "io = \<lparr>connected = False, sent = [], listeners = []\<rparr>"

text \<open>
  The module state. \<open>socket\<close> is the module variable. \<open>orphans\<close> are the instances that
  \<open>io\<close> created earlier and that the variable no longer refers to, although nobody called
  \<open>disconnect\<close> on them: they stay alive inside socket.io, which goes on connecting
  them. \<open>uncaught\<close> are the errors that listeners threw, oldest first.
\<close>

datatype js_error = TypeError

record socket_module =
  socket :: "transport option"
  orphans :: "transport list"
  uncaught :: "js_error list"

definition initial_module :: socket_module where
  "initial_module = \<lparr>socket = None, orphans = [], uncaught = []\<rparr>"

text \<open>The socket.io instances alive in the session.\<close>

definition instances :: "socket_module \<Rightarrow> transport list" where
  "instances sm = (case socket sm of None \<Rightarrow> [] | Some t \<Rightarrow> [t]) @ orphans sm"

text \<open>
  \<^verbatim>\<open>
  export const initSocket = (userId) => {
    if (socket?.connected) {
      socket.emit('user-join', userId);
      return socket;
    }
    socket = io(API_URL, {...});
    socket.on('connect', () => { ...; socket.emit('user-join', userId); });
    socket.on('disconnect', () => {...});
    return socket;
  };
  \<close>
  The result is the returned instance and the new module state. \<open>new_socket\<close> is the
  instance after the two \<open>socket.on\<close> calls. When the variable held an instance that was
  not connected, that instance is not disconnected: it becomes an orphan.
\<close>

definition new_socket :: "jsval option \<Rightarrow> transport" where
  "new_socket userId =
     on ''disconnect'' LogDisconnect (on ''connect'' (JoinOnConnect userId) io)"

definition initSocket :: "jsval option \<Rightarrow> socket_module \<Rightarrow> transport \<times> socket_module" where
  "initSocket userId sm =
     (case socket sm of
        Some s \<Rightarrow>
          if connected s
          then (let s' = emit (UserJoin userId) s in (s', sm\<lparr>socket := Some s'\<rparr>))
          else (new_socket userId,
                sm\<lparr>socket := Some (new_socket userId), orphans := s # orphans sm\<rparr>)
      | None \<Rightarrow> (new_socket userId, sm\<lparr>socket := Some (new_socket userId)\<rparr>))"

text \<open>
  \<^verbatim>\<open>if (socket) { socket.disconnect(); socket = null; }\<close>
  The disconnected instance is closed for good and leaves the session.
\<close>

definition closeSocket :: "socket_module \<Rightarrow> socket_module" where
  "closeSocket sm = (case socket sm of None \<Rightarrow> sm | Some s \<Rightarrow> sm\<lparr>socket := None\<rparr>)"

text \<open>
  The listeners that \<open>initSocket\<close> installs are closures over the module:
  \<^verbatim>\<open>socket.on('connect', () => { console.log(...); socket.emit('user-join', userId); });\<close>
  \<open>socket\<close> in the body is the module variable, read when the listener runs, not the
  instance the listener is registered on. When the variable is \<open>null\<close> the call throws a
  \<open>TypeError\<close>. A caller's callback for an inbound event does not touch the module.
\<close>

fun run_listener :: "listener \<Rightarrow> socket_module \<Rightarrow> js_error + socket_module" where
  "run_listener (JoinOnConnect userId) sm =
     (case socket sm of
        None \<Rightarrow> Inl TypeError
      | Some s \<Rightarrow> Inr (sm\<lparr>socket := Some (emit (UserJoin userId) s)\<rparr>))"
| "run_listener LogDisconnect sm = Inr sm"
| "run_listener (Callback c) sm = Inr sm"

text \<open>
  An instance calls the listeners of an event in registration order. A listener that
  throws ends the dispatch; nothing catches the error.
\<close>

fun run_listeners :: "listener list \<Rightarrow> socket_module \<Rightarrow> socket_module" where
  "run_listeners [] sm = sm"
| "run_listeners (l # ls) sm =
     (case run_listener l sm of
        Inl e \<Rightarrow> sm\<lparr>uncaught := uncaught sm @ [e]\<rparr>
      | Inr sm' \<Rightarrow> run_listeners ls sm')"

definition listeners_on :: "string \<Rightarrow> transport \<Rightarrow> listener list" where
  "listeners_on name t = map snd (filter (\<lambda>(n, l). n = name) (listeners t))"

text \<open>
  The transport reporting \<open>connect\<close> (the first connection or a reconnection) and
  \<open>disconnect\<close>, for the instance that the module variable holds and for the orphan at
  a position. The instance sets its \<open>connected\<close> flag, then calls its listeners.
\<close>

definition transport_connect :: "socket_module \<Rightarrow> socket_module" where
  "transport_connect sm =
     (case socket sm of
        None \<Rightarrow> sm
      | Some s \<Rightarrow>
          run_listeners (listeners_on ''connect'' s)
            (sm\<lparr>socket := Some (s\<lparr>connected := True\<rparr>)\<rparr>))"

definition transport_disconnect :: "socket_module \<Rightarrow> socket_module" where
  "transport_disconnect sm =
     (case socket sm of
        None \<Rightarrow> sm
      | Some s \<Rightarrow>
          run_listeners (listeners_on ''disconnect'' s)
            (sm\<lparr>socket := Some (s\<lparr>connected := False\<rparr>)\<rparr>))"

definition orphan_connect :: "nat \<Rightarrow> socket_module \<Rightarrow> socket_module" where
  "orphan_connect k sm =
     (if k < length (orphans sm)
      then run_listeners (listeners_on ''connect'' (orphans sm ! k))
             (sm\<lparr>orphans := (orphans sm)[k := (orphans sm ! k)\<lparr>connected := True\<rparr>]\<rparr>)
      else sm)"

definition orphan_disconnect :: "nat \<Rightarrow> socket_module \<Rightarrow> socket_module" where
  "orphan_disconnect k sm =
     (if k < length (orphans sm)
      then run_listeners (listeners_on ''disconnect'' (orphans sm ! k))
             (sm\<lparr>orphans := (orphans sm)[k := (orphans sm ! k)\<lparr>connected := False\<rparr>]\<rparr>)
      else sm)"

text \<open>A history of the transport: connects and disconnects of the live instances.\<close>

datatype transport_event =
    Connect
  | Disconnect
  | OrphanConnect nat
  | OrphanDisconnect nat

fun transport_step :: "transport_event \<Rightarrow> socket_module \<Rightarrow> socket_module" where
  "transport_step Connect sm = transport_connect sm"
| "transport_step Disconnect sm = transport_disconnect sm"
| "transport_step (OrphanConnect k) sm = orphan_connect k sm"
| "transport_step (OrphanDisconnect k) sm = orphan_disconnect k sm"

text \<open>\<^verbatim>\<open>if (socket) { socket.emit(name, payload); }\<close>\<close>

definition emit_if_socket :: "event \<Rightarrow> socket_module \<Rightarrow> socket_module" where
  "emit_if_socket ev sm =
     (case socket sm of None \<Rightarrow> sm | Some s \<Rightarrow> sm\<lparr>socket := Some (emit ev s)\<rparr>)"

definition emitTaskUpdated :: "task option \<Rightarrow> socket_module \<Rightarrow> socket_module" where
  "emitTaskUpdated taskData = emit_if_socket (TaskUpdated taskData)"

definition emitTaskCreated :: "task option \<Rightarrow> socket_module \<Rightarrow> socket_module" where
  "emitTaskCreated taskData = emit_if_socket (TaskCreated taskData)"

definition emitTaskDeleted :: "jsval option \<Rightarrow> socket_module \<Rightarrow> socket_module" where
  "emitTaskDeleted taskId = emit_if_socket (TaskDeleted taskId)"

definition emitTaskAssigned ::
  "jsval option \<Rightarrow> jsval option \<Rightarrow> jsval option \<Rightarrow> socket_module \<Rightarrow> socket_module" where
  "emitTaskAssigned assignedToId taskTitle taskId =
     emit_if_socket (TaskAssigned assignedToId taskTitle taskId)"

text \<open>
  The registration functions:
  \<^verbatim>\<open>
  export const onTaskUpdated = (callback) => {
    if (socket) {
      socket.on('task-updated', callback);
    }
  };
  \<close>
  Their body has no \<open>return\<close>: the value of a call is \<open>undefined\<close>. A caller takes that
  value for a function that unregisters the callback, so the result type is an optional
  such function, \<open>None\<close> being \<open>undefined\<close>.
\<close>

type_synonym unsubscribe = "socket_module \<Rightarrow> socket_module"

definition on_if_socket ::
  "string \<Rightarrow> nat \<Rightarrow> socket_module \<Rightarrow> unsubscribe option \<times> socket_module" where
  "on_if_socket name callback sm =
     (None,
      case socket sm of
        None \<Rightarrow> sm
      | Some s \<Rightarrow> sm\<lparr>socket := Some (on name (Callback callback) s)\<rparr>)"

definition onTaskUpdated :: "nat \<Rightarrow> socket_module \<Rightarrow> unsubscribe option \<times> socket_module" where
  "onTaskUpdated = on_if_socket ''task-updated''"

definition onTaskCreated :: "nat \<Rightarrow> socket_module \<Rightarrow> unsubscribe option \<times> socket_module" where
  "onTaskCreated = on_if_socket ''task-created''"

definition onTaskDeleted :: "nat \<Rightarrow> socket_module \<Rightarrow> unsubscribe option \<times> socket_module" where
  "onTaskDeleted = on_if_socket ''task-deleted''"

definition onAssignmentNotification ::
  "nat \<Rightarrow> socket_module \<Rightarrow> unsubscribe option \<times> socket_module" where
  "onAssignmentNotification = on_if_socket ''assignment-notification''"

text \<open>\<^verbatim>\<open>unsubscribe?.()\<close>: the call happens only when the value is not \<open>undefined\<close>.\<close>

definition call_optional :: "unsubscribe option \<Rightarrow> socket_module \<Rightarrow> socket_module" where
  "call_optional u sm = (case u of None \<Rightarrow> sm | Some f \<Rightarrow> f sm)"

text \<open>Whether a callback is registered on \<open>name\<close> on the module's socket.\<close>

definition is_registered :: "string \<Rightarrow> nat \<Rightarrow> socket_module \<Rightarrow> bool" where
  "is_registered name callback sm =
     (case socket sm of
        None \<Rightarrow> False
      | Some s \<Rightarrow> (name, Callback callback) \<in> set (listeners s))"

section \<open>Loading the collection: \<open>getTasksData\<close> of \<open>useTasks\<close>\<close>

text \<open>
  The state of the hook (\<open>tasks\<close>, \<open>isLoading\<close>, \<open>error\<close>) and the routes pushed on the
  router, oldest first. \<open>error\<close> is \<open>null\<close> or the message.
\<close>

record tasks_hook =
  tasks :: "task list"
  isLoading :: bool
  error :: jsval
  pushed :: "string list"

text \<open>The options of the hook; a property left out is \<open>None\<close>.\<close>

record options =
  opt_filter :: "jsval option"
  opt_status :: "jsval option"
  opt_priority :: "jsval option"
  opt_sortBy :: "jsval option"

text \<open>A destructuring default, \<^verbatim>\<open>{ filter = 'all' }\<close>: it applies to \<open>undefined\<close> only.\<close>

definition default_to :: "string \<Rightarrow> jsval option \<Rightarrow> jsval option" where
  "default_to d v = (case v of None \<Rightarrow> Some (JStr d) | Some x \<Rightarrow> Some x)"

text \<open>How the promise of an async function settles.\<close>

datatype settled = Fulfilled | Rejected

text \<open>
  The \<open>switch (filter)\<close> of \<open>getTasksData\<close>: the request that is awaited.
\<close>

definition fetch_by_filter ::
  "taskAPI \<Rightarrow> options \<Rightarrow> axios_error + task list axios_response" where
  "fetch_by_filter api opts =
     (let filter = default_to ''all'' (opt_filter opts) in
      if strict_eq filter (Some (JStr ''assigned'')) then getAssignedTasks api
      else if strict_eq filter (Some (JStr ''created'')) then getCreatedTasks api
      else if strict_eq filter (Some (JStr ''overdue'')) then getOverdueTasks api
      else getAllTasks api \<lparr>q_status = opt_status opts, q_priority = opt_priority opts,
                             q_sortBy = default_to ''dueDate'' (opt_sortBy opts)\<rparr>)"

text \<open>
  \<^verbatim>\<open>
  try {
    setIsLoading(true); setError(null);
    let response; switch (filter) { ... response = await taskAPI....; }
    setTasks(response.data?.data || []);
  } catch (err) {
    setError(err.response?.data?.message || 'Failed to fetch tasks');
    if (err.response?.status === 401) { router.push('/login'); }
  } finally {
    setIsLoading(false);
  }
  \<close>
  Nothing in the \<open>catch\<close> and \<open>finally\<close> blocks throws, so the promise is fulfilled on
  both paths.
\<close>

definition getTasksData :: "taskAPI \<Rightarrow> options \<Rightarrow> tasks_hook \<Rightarrow> settled \<times> tasks_hook" where
  "getTasksData api opts st =
     (let st1 = st\<lparr>isLoading := True, error := JNull\<rparr> in
      case fetch_by_filter api opts of
        Inr response \<Rightarrow>
          (Fulfilled,
           st1\<lparr>tasks := (case data_of response of None \<Rightarrow> [] | Some ts \<Rightarrow> ts),
                isLoading := False\<rparr>)
      | Inl err \<Rightarrow>
          (let st2 = st1\<lparr>error := or_else (message_of err) ''Failed to fetch tasks''\<rparr>;
               st3 = (if strict_eq (status_of err) (Some (JNum 401))
                      then st2\<lparr>pushed := pushed st2 @ [''/login'']\<rparr> else st2)
           in (Fulfilled, st3\<lparr>isLoading := False\<rparr>)))"

text \<open>
  The socket effect of \<open>useTasks\<close>: on mount it registers its three callbacks and keeps
  what the registrations returned; its cleanup calls each of them, if it is a function.
\<close>

definition socket_effect ::
  "nat \<Rightarrow> nat \<Rightarrow> nat \<Rightarrow> socket_module
     \<Rightarrow> (unsubscribe option \<times> unsubscribe option \<times> unsubscribe option) \<times> socket_module" where
  "socket_effect cbUpdated cbCreated cbDeleted sm =
     (let (unsubscribeUpdated, sm1) = onTaskUpdated cbUpdated sm;
          (unsubscribeCreated, sm2) = onTaskCreated cbCreated sm1;
          (unsubscribeDeleted, sm3) = onTaskDeleted cbDeleted sm2
      in ((unsubscribeUpdated, unsubscribeCreated, unsubscribeDeleted), sm3))"

definition socket_effect_cleanup ::
  "unsubscribe option \<times> unsubscribe option \<times> unsubscribe option
     \<Rightarrow> socket_module \<Rightarrow> socket_module" where
  "socket_effect_cleanup us sm =
     (case us of (unsubscribeUpdated, unsubscribeCreated, unsubscribeDeleted) \<Rightarrow>
        call_optional unsubscribeDeleted
          (call_optional unsubscribeCreated (call_optional unsubscribeUpdated sm)))"

section \<open>The task item: \<open>components/TaskItem.js\<close>\<close>

text \<open>
  The local state of the component, and how often it called the \<open>onTaskUpdated\<close> and
  \<open>onTaskDeleted\<close> props of its parent.
\<close>

record item_ui =
  isUpdating :: bool
  isDeleting :: bool
  showDeleteConfirm :: bool
  parent_calls :: nat

text \<open>
  \<^verbatim>\<open>
  if (newStatus === task.status) return;
  setIsUpdating(true);
  try {
    const response = await taskAPI.updateTask(task.id, { status: newStatus });
    emitTaskUpdated(response.data?.data);
    onTaskUpdated?.();
  } catch (err) { console.error(...); } finally { setIsUpdating(false); }
  \<close>
  \<open>handlePriorityChange\<close> is the same on \<open>priority\<close>.
\<close>

definition handleStatusChange ::
  "taskAPI \<Rightarrow> task \<Rightarrow> jsval option \<Rightarrow> item_ui \<times> socket_module \<Rightarrow> item_ui \<times> socket_module" where
  "handleStatusChange api task newStatus w =
     (case w of (ui, sm) \<Rightarrow>
        if strict_eq newStatus (task ''status'') then (ui, sm)
        else
          (case updateTask api (task ''id'') (Map.empty(''status'' := newStatus)) of
             Inr response \<Rightarrow>
               (ui\<lparr>isUpdating := False, parent_calls := Suc (parent_calls ui)\<rparr>,
                emitTaskUpdated (data_of response) sm)
           | Inl err \<Rightarrow> (ui\<lparr>isUpdating := False\<rparr>, sm)))"

definition handlePriorityChange ::
  "taskAPI \<Rightarrow> task \<Rightarrow> jsval option \<Rightarrow> item_ui \<times> socket_module \<Rightarrow> item_ui \<times> socket_module" where
  "handlePriorityChange api task newPriority w =
     (case w of (ui, sm) \<Rightarrow>
        if strict_eq newPriority (task ''priority'') then (ui, sm)
        else
          (case updateTask api (task ''id'') (Map.empty(''priority'' := newPriority)) of
             Inr response \<Rightarrow>
               (ui\<lparr>isUpdating := False, parent_calls := Suc (parent_calls ui)\<rparr>,
                emitTaskUpdated (data_of response) sm)
           | Inl err \<Rightarrow> (ui\<lparr>isUpdating := False\<rparr>, sm)))"

text \<open>
  \<^verbatim>\<open>
  setIsDeleting(true);
  try {
    await taskAPI.deleteTask(task.id);
    emitTaskDeleted(task.id);
    setShowDeleteConfirm(false);
    onTaskDeleted?.();
  } catch (err) { console.error(...); } finally { setIsDeleting(false); }
  \<close>
\<close>

definition handleDelete ::
  "taskAPI \<Rightarrow> task \<Rightarrow> item_ui \<times> socket_module \<Rightarrow> item_ui \<times> socket_module" where
  "handleDelete api task w =
     (case w of (ui, sm) \<Rightarrow>
        (case deleteTask api (task ''id'') of
           Inr response \<Rightarrow>
             (ui\<lparr>showDeleteConfirm := False, isDeleting := False,
                 parent_calls := Suc (parent_calls ui)\<rparr>,
              emitTaskDeleted (task ''id'') sm)
         | Inl err \<Rightarrow> (ui\<lparr>isDeleting := False\<rparr>, sm)))"

text \<open>
  Dates are the host's: \<open>date_time v\<close> is the time value of \<^verbatim>\<open>new Date(v)\<close> in milliseconds,
  \<open>None\<close> for an Invalid Date, and \<open>iso_string\<close> is \<open>toISOString\<close> on a valid time value.

  \<^verbatim>\<open>task.dueDate && new Date(task.dueDate) < new Date() && task.status !== 'Completed'\<close>
  with \<open>now\<close> the time value of \<^verbatim>\<open>new Date()\<close>. The component uses the value as a
  condition only, so the model gives its truthiness. A comparison with an Invalid Date
  is false.
\<close>

record js_date =
  date_time :: "jsval option \<Rightarrow> int option"
  iso_string :: "int \<Rightarrow> string"

definition isOverdue :: "js_date \<Rightarrow> int \<Rightarrow> task \<Rightarrow> bool" where
  "isOverdue D now task =
     (truthy (task ''dueDate'')
      \<and> (case date_time D (task ''dueDate'') of None \<Rightarrow> False | Some due \<Rightarrow> due < now)
      \<and> \<not> strict_eq (task ''status'') (Some (JStr ''Completed'')))"

section \<open>The task form: \<open>lib/validation.js\<close> and \<open>components/TaskForm.js\<close>\<close>

text \<open>
  A zod schema is the library's: \<open>schema.parse\<close> returns the parsed data or throws, a
  \<open>ZodError\<close> with its issues (path and message) or something else.

  \<^verbatim>\<open>
  export const validate = (schema, data) => {
    try {
      const validatedData = schema.parse(data);
      return { success: true, data: validatedData, errors: {} };
    } catch (error) {
      if (error instanceof z.ZodError) {
        const errors = {};
        error.errors.forEach((err) => { errors[err.path.join('.')] = err.message; });
        return { success: false, data: null, errors };
      }
      return { success: false, data: null, errors: { general: 'Validation failed' } };
    }
  };
  \<close>
\<close>

datatype thrown = ZodError "(string list \<times> string) list" | OtherError

type_synonym schema = "jsobj \<Rightarrow> thrown + jsobj"

record validation =
  success :: bool
  validated :: "jsobj option"
  errors :: "string \<rightharpoonup> string"

fun join_path :: "string list \<Rightarrow> string" where
  "join_path [] = []"
| "join_path [p] = p"
| "join_path (p # q # ps) = p @ ''.'' @ join_path (q # ps)"

definition validate :: "schema \<Rightarrow> jsobj \<Rightarrow> validation" where
  "validate schema d =
     (case schema d of
        Inr validatedData \<Rightarrow>
          \<lparr>success = True, validated = Some validatedData, errors = Map.empty\<rparr>
      | Inl (ZodError issues) \<Rightarrow>
          \<lparr>success = False, validated = None,
           errors = fold (\<lambda>(path, message) errs. errs(join_path path \<mapsto> message))
                      issues Map.empty\<rparr>
      | Inl OtherError \<Rightarrow>
          \<lparr>success = False, validated = None,
           errors = [''general'' \<mapsto> ''Validation failed'']\<rparr>)"

text \<open>
  The local state of the form, how often it reset its fields and how often it called the
  \<open>onTaskCreated\<close> prop.
\<close>

record form_ui =
  formIsLoading :: bool
  formError :: jsval
  resets :: nat
  created_calls :: nat

text \<open>
  \<^verbatim>\<open>
  const onSubmit = async (data) => {
    try {
      setIsLoading(true); setError('');
      const validation = validate(taskSchema, {
        ...data, dueDate: data.dueDate ? new Date(data.dueDate) : undefined });
      if (!validation.success) { setError('Validation failed'); return; }
      const submitData = { ...validation.data,
        dueDate: data.dueDate ? new Date(data.dueDate).toISOString() : null };
      if (initialData) {
        // Update existing task
        const response = await taskAPI.updateTask(initialData.id, submitData);
        emitTaskCreated(response.data?.data);
      } else {
        // Create new task
        const response = await taskAPI.createTask(submitData);
        emitTaskCreated(response.data?.data);
        if (submitData.assignedToId) {
          emitTaskAssigned(submitData.assignedToId, submitData.title, response.data?.data?.id);
        }
      }
      reset(); onTaskCreated?.();
    } catch (err) {
      setError(err.response?.data?.message || 'Failed to save task');
    } finally { setIsLoading(false); }
  };
  \<close>
  \<open>toISOString\<close> throws a \<open>RangeError\<close> on an Invalid Date; like every error that is not
  an axios error it has no \<open>response\<close>.
\<close>

definition validation_input :: "js_date \<Rightarrow> jsobj \<Rightarrow> jsobj" where
  "validation_input D d =
     d(''dueDate'' := (if truthy (d ''dueDate'')
                       then Some (JDate (date_time D (d ''dueDate''))) else None))"

definition submit_dueDate :: "js_date \<Rightarrow> jsobj \<Rightarrow> axios_error + jsval" where
  "submit_dueDate D d =
     (if truthy (d ''dueDate'')
      then (case date_time D (d ''dueDate'') of
              None \<Rightarrow> Inl \<lparr>err_response = None\<rparr>
            | Some t \<Rightarrow> Inr (JStr (iso_string D t)))
      else Inr JNull)"

text \<open>\<^verbatim>\<open>{ ...validation.data, dueDate: ... }\<close>; spreading \<open>null\<close> adds nothing.\<close>

definition submitData_of :: "validation \<Rightarrow> jsval \<Rightarrow> jsobj" where
  "submitData_of v due =
     spread (case validated v of None \<Rightarrow> Map.empty | Some vd \<Rightarrow> vd) [''dueDate'' \<mapsto> due]"

definition submit_failed :: "axios_error \<Rightarrow> form_ui \<Rightarrow> form_ui" where
  "submit_failed err ui =
     ui\<lparr>formError := or_else (message_of err) ''Failed to save task'',
        formIsLoading := False\<rparr>"

definition submit_done :: "form_ui \<Rightarrow> form_ui" where
  "submit_done ui =
     ui\<lparr>resets := Suc (resets ui), created_calls := Suc (created_calls ui),
        formIsLoading := False\<rparr>"

definition onSubmit ::
  "js_date \<Rightarrow> schema \<Rightarrow> taskAPI \<Rightarrow> task option \<Rightarrow> jsobj
     \<Rightarrow> form_ui \<times> socket_module \<Rightarrow> form_ui \<times> socket_module" where
  "onSubmit D taskSchema api initialData d w =
     (case w of (ui, sm) \<Rightarrow>
        let ui1 = ui\<lparr>formIsLoading := True, formError := JStr []\<rparr>;
            v = validate taskSchema (validation_input D d)
        in
        if \<not> success v
        then (ui1\<lparr>formError := JStr ''Validation failed'', formIsLoading := False\<rparr>, sm)
        else
          (case submit_dueDate D d of
             Inl err \<Rightarrow> (submit_failed err ui1, sm)
           | Inr due \<Rightarrow>
               let submitData = submitData_of v due in
               (case initialData of
                  Some initial \<Rightarrow>
                    (case updateTask api (initial ''id'') submitData of
                       Inl err \<Rightarrow> (submit_failed err ui1, sm)
                     | Inr response \<Rightarrow>
                         (submit_done ui1, emitTaskCreated (data_of response) sm))
                | None \<Rightarrow>
                    (case createTask api submitData of
                       Inl err \<Rightarrow> (submit_failed err ui1, sm)
                     | Inr response \<Rightarrow>
                         let sm1 = emitTaskCreated (data_of response) sm;
                             sm2 = (if truthy (submitData ''assignedToId'')
                                    then emitTaskAssigned (submitData ''assignedToId'')
                                           (submitData ''title'')
                                           (case data_of response of
                                              None \<Rightarrow> None | Some created \<Rightarrow> created ''id'')
                                           sm1
                                    else sm1)
                         in (submit_done ui1, sm2)))))"

section \<open>Example inputs\<close>

text \<open>
  Concrete stores, sockets and tasks on which the theorems below are instantiated: a
  store that rejects every call with a given error, a store that answers every call with
  a given task, and the module after \<open>initSocket('u1')\<close> and a successful connect.
\<close>

definition unauthorized :: axios_error where
  "unauthorized =
     \<lparr>err_response = Some \<lparr>err_status = Some (JNum 401),
                             err_data = Some [''message'' \<mapsto> JStr ''Not authenticated'']\<rparr>\<rparr>"

definition rejecting_api :: "axios_error \<Rightarrow> taskAPI" where
  "rejecting_api e =
     \<lparr>getAllTasks = (\<lambda>q. Inl e), getAssignedTasks = Inl e, getCreatedTasks = Inl e,
      getOverdueTasks = Inl e, createTask = (\<lambda>d. Inl e), updateTask = (\<lambda>i d. Inl e),
      deleteTask = (\<lambda>i. Inl e)\<rparr>"

definition ok :: "'a \<Rightarrow> axios_error + 'a axios_response" where
  "ok x = Inr \<lparr>resp_data = Some \<lparr>body_data = Some x\<rparr>\<rparr>"

definition accepting_api :: "task \<Rightarrow> taskAPI" where
  "accepting_api stored =
     \<lparr>getAllTasks = (\<lambda>q. ok [stored]), getAssignedTasks = ok [stored],
      getCreatedTasks = ok [stored], getOverdueTasks = ok [stored],
      createTask = (\<lambda>d. ok stored), updateTask = (\<lambda>i d. ok stored),
      deleteTask = (\<lambda>i. ok ())\<rparr>"

definition no_options :: options where
  "no_options =
     \<lparr>opt_filter = None, opt_status = None, opt_priority = None, opt_sortBy = None\<rparr>"

definition cached :: tasks_hook where
  "cached = \<lparr>tasks = [[''id'' \<mapsto> JStr ''a'']], isLoading = False, error = JNull, pushed = []\<rparr>"

definition open_socket :: transport where
  "open_socket =
     \<lparr>connected = True, sent = [UserJoin (Some (JStr ''u1''))],
      listeners = [(''connect'', JoinOnConnect (Some (JStr ''u1''))),
                   (''disconnect'', LogDisconnect)]\<rparr>"

definition open_module :: socket_module where
  "open_module = transport_connect (snd (initSocket (Some (JStr ''u1'')) initial_module))"

definition idle_item :: item_ui where
  "idle_item =
     \<lparr>isUpdating = False, isDeleting = False, showDeleteConfirm = True, parent_calls = 0\<rparr>"

definition idle_form :: form_ui where
  "idle_form = \<lparr>formIsLoading = False, formError = JStr [], resets = 0, created_calls = 0\<rparr>"

definition task_a :: task where
  "task_a = [''id'' \<mapsto> JStr ''a'', ''title'' \<mapsto> JStr ''Ship release'',
             ''status'' \<mapsto> JStr ''To Do'', ''priority'' \<mapsto> JStr ''High'']"

definition task_a_done :: task where
  "task_a_done = [''id'' \<mapsto> JStr ''a'', ''title'' \<mapsto> JStr ''Ship release'',
                  ''status'' \<mapsto> JStr ''Completed'', ''priority'' \<mapsto> JStr ''High'']"

definition form_a_done :: jsobj where
  "form_a_done = [''title'' \<mapsto> JStr ''Ship release'', ''status'' \<mapsto> JStr ''Completed'']"

definition no_dates :: js_date where
  "no_dates = \<lparr>date_time = (\<lambda>v. None), iso_string = (\<lambda>t. [])\<rparr>"

definition accept_all :: schema where
  "accept_all d = Inr d"

definition utc_dates :: js_date where
  "utc_dates =
     \<lparr>date_time = (\<lambda>v. if v = Some (JStr ''2024-01-01T00:00:00.000Z'')
                        then Some 1704067200000 else None),
      iso_string = (\<lambda>t. ''2024-01-01T00:00:00.000Z'')\<rparr>"

definition task_due :: task where
  "task_due = [''id'' \<mapsto> JStr ''a'', ''dueDate'' \<mapsto> JStr ''2024-01-01T00:00:00.000Z'',
               ''status'' \<mapsto> JStr ''To Do'']"

section \<open>Properties of the collection patches\<close>

lemma strict_eq_refl_right: "strict_eq a b \<Longrightarrow> strict_eq b b"
  by (auto simp add: strict_eq_def)

lemma spread_id_matches:
  assumes "strict_eq (t ''id'') (u ''id'')"
  shows "strict_eq (spread t u ''id'') (u ''id'')"
proof (cases "u ''id''")
  case None
  with assms show ?thesis by (simp add: spread_def map_add_def)
next
  case (Some v)
  with assms show ?thesis by (auto simp add: spread_def map_add_def strict_eq_def)
qed

lemma spread_twice: "spread (spread t u) u = spread t u"
  by (rule ext) (simp add: spread_def map_add_def split: option.split)

lemma update_entry_twice:
  "(let t' = (if strict_eq (t ''id'') (u ''id'') then spread t u else t)
    in if strict_eq (t' ''id'') (u ''id'') then spread t' u else t')
   = (if strict_eq (t ''id'') (u ''id'') then spread t u else t)"
  by (simp add: spread_id_matches spread_twice)

text \<open>
  C1. Applying the update patch for a task twice in succession gives the same collection
  as applying it once.
\<close>

theorem applyUpdate_idempotent:
  "applyUpdate t (applyUpdate t prevTasks) = applyUpdate t prevTasks"
proof (induction prevTasks)
  case Nil
  show ?case by (simp add: applyUpdate_def)
next
  case (Cons x xs)
  have "applyUpdate t (applyUpdate t (x # xs))
        = (let x' = (if strict_eq (x ''id'') (t ''id'') then spread x t else x)
           in if strict_eq (x' ''id'') (t ''id'') then spread x' t else x')
          # applyUpdate t (applyUpdate t xs)"
    by (simp add: applyUpdate_def Let_def)
  also have "\<dots> = (if strict_eq (x ''id'') (t ''id'') then spread x t else x)
                  # applyUpdate t xs"
    using Cons.IH update_entry_twice [of x t] by simp
  also have "\<dots> = applyUpdate t (x # xs)"
    by (simp add: applyUpdate_def)
  finally show ?case .
qed

text \<open>
  C2. The create patch prepends the task unconditionally. Applied twice with the same task
  it gives a collection that differs from the one after a single application and holds
  (at least) two entries with the id of that task: it is not idempotent.
\<close>

theorem applyCreate_prepends_twice: "applyCreate t prevTasks = t # prevTasks
   \<and> applyCreate t (applyCreate t prevTasks) = t # t # prevTasks
   \<and> applyCreate t (applyCreate t prevTasks) \<noteq> applyCreate t prevTasks
   \<and> 2 \<le> length (filter (\<lambda>task. task ''id'' = t ''id'') (applyCreate t (applyCreate t prevTasks)))"
  by (simp add: applyCreate_def)

lemma strict_eq_imp_eq: "strict_eq a b \<Longrightarrow> a = b"
  by (simp add: strict_eq_def)

lemma applyDelete_absent:
  "\<forall>task \<in> set prevTasks. task ''id'' \<noteq> ident \<Longrightarrow> applyDelete ident prevTasks = prevTasks"
  unfolding applyDelete_def
  by (rule filter_True) (auto dest: strict_eq_imp_eq)

lemma applyUpdate_absent:
  "\<forall>task \<in> set prevTasks. task ''id'' \<noteq> t ''id'' \<Longrightarrow> applyUpdate t prevTasks = prevTasks"
  unfolding applyUpdate_def
  by (rule map_idI) (auto dest: strict_eq_imp_eq)

text \<open>
  C3. When no entry of the collection has the identifier, the delete patch for the
  identifier and the update patch for a task with that identifier leave the collection
  as it is; the update does not insert the task.
\<close>

theorem absent_id_noop:
  assumes "\<forall>task \<in> set prevTasks. task ''id'' \<noteq> ident" and "t ''id'' = ident"
  shows "applyDelete ident prevTasks = prevTasks \<and> applyUpdate t prevTasks = prevTasks"
  using assms by (simp add: applyDelete_absent applyUpdate_absent)

theorem absent_id_noop_witness:
  "Some (JStr ''c'') \<notin> set (map (\<lambda>task. task ''id'') [[''id'' \<mapsto> JStr ''a'', ''title'' \<mapsto> JStr ''x''], [''id'' \<mapsto> JStr ''b'']])
   \<and> applyDelete (Some (JStr ''c'')) [[''id'' \<mapsto> JStr ''a'', ''title'' \<mapsto> JStr ''x''], [''id'' \<mapsto> JStr ''b'']]
       = [[''id'' \<mapsto> JStr ''a'', ''title'' \<mapsto> JStr ''x''], [''id'' \<mapsto> JStr ''b'']]
   \<and> applyUpdate [''id'' \<mapsto> JStr ''c'', ''title'' \<mapsto> JStr ''y''] [[''id'' \<mapsto> JStr ''a'', ''title'' \<mapsto> JStr ''x''], [''id'' \<mapsto> JStr ''b'']]
       = [[''id'' \<mapsto> JStr ''a'', ''title'' \<mapsto> JStr ''x''], [''id'' \<mapsto> JStr ''b'']]"
proof -
  let ?ps = "[[''id'' \<mapsto> JStr ''a'', ''title'' \<mapsto> JStr ''x''], [''id'' \<mapsto> JStr ''b'']]"
  let ?t = "[''id'' \<mapsto> JStr ''c'', ''title'' \<mapsto> JStr ''y'']"
  have absent: "\<forall>task \<in> set ?ps. task ''id'' \<noteq> Some (JStr ''c'')"
    by simp
  have ident: "?t ''id'' = Some (JStr ''c'')"
    by simp
  from absent_id_noop [of ?ps "Some (JStr ''c'')" ?t] absent ident show ?thesis by simp
qed

lemma spread_id_same:
  "strict_eq (x ''id'') (t ''id'') \<Longrightarrow> spread x t ''id'' = x ''id''"
  by (auto simp: strict_eq_def spread_def map_add_def split: option.split)

text \<open>
  C10. The update patch keeps the length of the collection and the order of its entries
  (the sequence of their ids), and an entry whose id is not \<open>===\<close> the id of the task
  stays exactly as it was.
\<close>

theorem applyUpdate_frame:
  "length (applyUpdate t prevTasks) = length prevTasks
   \<and> map (\<lambda>task. task ''id'') (applyUpdate t prevTasks) = map (\<lambda>task. task ''id'') prevTasks
   \<and> (\<forall>i < length prevTasks. \<not> strict_eq ((prevTasks ! i) ''id'') (t ''id'')
          \<longrightarrow> applyUpdate t prevTasks ! i = prevTasks ! i)"
  by (simp add: applyUpdate_def spread_id_same)

theorem applyUpdate_frame_witness:
  "length (applyUpdate [''id'' \<mapsto> JStr ''a'', ''status'' \<mapsto> JStr ''Completed'']
             [[''id'' \<mapsto> JStr ''a'', ''title'' \<mapsto> JStr ''x''], [''id'' \<mapsto> JStr ''b'']]) = 2
   \<and> \<not> strict_eq ([''id'' \<mapsto> JStr ''b''] ''id'') (Some (JStr ''a''))
   \<and> applyUpdate [''id'' \<mapsto> JStr ''a'', ''status'' \<mapsto> JStr ''Completed'']
             [[''id'' \<mapsto> JStr ''a'', ''title'' \<mapsto> JStr ''x''], [''id'' \<mapsto> JStr ''b'']] ! 1
       = [''id'' \<mapsto> JStr ''b'']
   \<and> applyUpdate [''id'' \<mapsto> JStr ''a'', ''status'' \<mapsto> JStr ''Completed'']
             [[''id'' \<mapsto> JStr ''a'', ''title'' \<mapsto> JStr ''x''], [''id'' \<mapsto> JStr ''b'']] ! 0
       = [''id'' \<mapsto> JStr ''a'', ''title'' \<mapsto> JStr ''x'', ''status'' \<mapsto> JStr ''Completed'']"
proof -
  let ?t = "[''id'' \<mapsto> JStr ''a'', ''status'' \<mapsto> JStr ''Completed'']"
  let ?ps = "[[''id'' \<mapsto> JStr ''a'', ''title'' \<mapsto> JStr ''x''], [''id'' \<mapsto> JStr ''b'']]"
  have differs: "\<not> strict_eq ((?ps ! 1) ''id'') (?t ''id'')"
    by (simp add: strict_eq_def)
  have merged: "applyUpdate ?t ?ps ! 0
       = [''id'' \<mapsto> JStr ''a'', ''title'' \<mapsto> JStr ''x'', ''status'' \<mapsto> JStr ''Completed'']"
    by (auto simp add: applyUpdate_def strict_eq_def spread_def map_add_def fun_eq_iff)
  from applyUpdate_frame [of ?t ?ps] differs merged show ?thesis by simp
qed

section \<open>Loading: a failed load keeps the cached collection\<close>

lemma truthy_or_else: "truthy (Some (or_else v fallback)) = (truthy v \<or> fallback \<noteq> [])"
  by (cases v) (auto simp add: or_else_def)

text \<open>
  C4. When the awaited request of a load is rejected, the promise of \<open>getTasksData\<close> is
  still fulfilled (no rejection escapes), the cached collection is the one before the
  load, the error of the hook is a message (the one of the response, or the fallback),
  loading has ended, and \<open>/login\<close> is pushed on the router exactly when the status of
  the rejection is 401.
\<close>

theorem failed_load_keeps_tasks:
  assumes "fetch_by_filter api opts = Inl err"
  shows "fst (getTasksData api opts st) = Fulfilled
         \<and> tasks (snd (getTasksData api opts st)) = tasks st
         \<and> error (snd (getTasksData api opts st))
             = or_else (message_of err) ''Failed to fetch tasks''
         \<and> truthy (Some (error (snd (getTasksData api opts st))))
         \<and> \<not> isLoading (snd (getTasksData api opts st))
         \<and> pushed (snd (getTasksData api opts st))
             = (if status_of err = Some (JNum 401) then pushed st @ [''/login'']
                else pushed st)"
  using assms by (simp add: getTasksData_def Let_def truthy_or_else strict_eq_def)

theorem failed_load_keeps_tasks_witness:
  "fetch_by_filter (rejecting_api unauthorized) no_options = Inl unauthorized
   \<and> fst (getTasksData (rejecting_api unauthorized) no_options cached) = Fulfilled
   \<and> tasks (snd (getTasksData (rejecting_api unauthorized) no_options cached))
       = [[''id'' \<mapsto> JStr ''a'']]
   \<and> error (snd (getTasksData (rejecting_api unauthorized) no_options cached))
       = JStr ''Not authenticated''
   \<and> pushed (snd (getTasksData (rejecting_api unauthorized) no_options cached))
       = [''/login'']"
proof -
  have rejected: "fetch_by_filter (rejecting_api unauthorized) no_options = Inl unauthorized"
    by (simp add: fetch_by_filter_def rejecting_api_def no_options_def default_to_def
        strict_eq_def)
  have message: "or_else (message_of unauthorized) ''Failed to fetch tasks''
                 = JStr ''Not authenticated''"
    by (simp add: message_of_def unauthorized_def or_else_def)
  have status: "status_of unauthorized = Some (JNum 401)"
    by (simp add: status_of_def unauthorized_def)
  have before: "tasks cached = [[''id'' \<mapsto> JStr ''a'']]" "pushed cached = []"
    by (simp_all add: cached_def)
  from failed_load_keeps_tasks [OF rejected, of cached]
  show ?thesis
    by (simp only: rejected message status before if_True append_Nil simp_thms)
qed

section \<open>Local mutations: the channel after the remote write\<close>

lemma handleStatusChange_emitted:
  assumes "snd (handleStatusChange api task v (ui, sm)) \<noteq> sm"
  shows "\<not> strict_eq v (task ''status'')
         \<and> (\<exists>response. updateTask api (task ''id'') (Map.empty(''status'' := v)) = Inr response)"
  using assms by (auto simp add: handleStatusChange_def split: if_splits sum.splits)

lemma handlePriorityChange_emitted:
  assumes "snd (handlePriorityChange api task v (ui, sm)) \<noteq> sm"
  shows "\<not> strict_eq v (task ''priority'')
         \<and> (\<exists>response. updateTask api (task ''id'') (Map.empty(''priority'' := v)) = Inr response)"
  using assms by (auto simp add: handlePriorityChange_def split: if_splits sum.splits)

lemma handleDelete_emitted:
  assumes "snd (handleDelete api task (ui, sm)) \<noteq> sm"
  shows "\<exists>response. deleteTask api (task ''id'') = Inr response"
  using assms by (auto simp add: handleDelete_def split: sum.splits)

lemma onSubmit_emitted:
  assumes "snd (onSubmit D taskSchema api initialData d (fui, sm)) \<noteq> sm"
  shows "success (validate taskSchema (validation_input D d))
         \<and> (\<exists>due response. submit_dueDate D d = Inr due
              \<and> (case initialData of
                    Some initial \<Rightarrow>
                      updateTask api (initial ''id'')
                        (submitData_of (validate taskSchema (validation_input D d)) due)
                  | None \<Rightarrow>
                      createTask api
                        (submitData_of (validate taskSchema (validation_input D d)) due))
                 = Inr response)"
  using assms
  by (auto simp add: onSubmit_def Let_def split: if_splits sum.splits option.splits)

lemma handleStatusChange_failed:
  assumes "isl (updateTask api (task ''id'') (Map.empty(''status'' := v)))"
  shows "snd (handleStatusChange api task v (ui, sm)) = sm"
  using assms by (auto simp add: handleStatusChange_def split: sum.splits)

lemma handlePriorityChange_failed:
  assumes "isl (updateTask api (task ''id'') (Map.empty(''priority'' := v)))"
  shows "snd (handlePriorityChange api task v (ui, sm)) = sm"
  using assms by (auto simp add: handlePriorityChange_def split: sum.splits)

lemma handleDelete_failed:
  assumes "isl (deleteTask api (task ''id''))"
  shows "snd (handleDelete api task (ui, sm)) = sm"
  using assms by (auto simp add: handleDelete_def split: sum.splits)

lemma onSubmit_failed:
  assumes "submit_dueDate D d = Inr due"
    and "isl (case initialData of
                Some initial \<Rightarrow>
                  updateTask api (initial ''id'')
                    (submitData_of (validate taskSchema (validation_input D d)) due)
              | None \<Rightarrow>
                  createTask api
                    (submitData_of (validate taskSchema (validation_input D d)) due))"
  shows "snd (onSubmit D taskSchema api initialData d (fui, sm)) = sm"
  using assms
  by (auto simp add: onSubmit_def Let_def split: if_splits sum.splits option.splits)

text \<open>
  C5. For the status change, the priority change, the delete and the form submission
  (create or edit): when the remote write is rejected, the socket module after the
  handler is the one before it, so nothing was emitted; and when the socket module has
  changed, the write was attempted and the store had accepted it. The only places where
  a handler emits come after the awaited write.
\<close>

theorem emit_only_after_successful_write:
  "(isl (updateTask api (task ''id'') (Map.empty(''status'' := newStatus)))
      \<longrightarrow> snd (handleStatusChange api task newStatus (ui, sm)) = sm)
   \<and> (isl (updateTask api (task ''id'') (Map.empty(''priority'' := newPriority)))
      \<longrightarrow> snd (handlePriorityChange api task newPriority (ui, sm)) = sm)
   \<and> (isl (deleteTask api (task ''id''))
      \<longrightarrow> snd (handleDelete api task (ui, sm)) = sm)
   \<and> (submit_dueDate D d = Inr due
       \<and> isl (case initialData of
                 Some initial \<Rightarrow>
                   updateTask api (initial ''id'')
                     (submitData_of (validate taskSchema (validation_input D d)) due)
               | None \<Rightarrow>
                   createTask api
                     (submitData_of (validate taskSchema (validation_input D d)) due))
      \<longrightarrow> snd (onSubmit D taskSchema api initialData d (fui, sm)) = sm)
   \<and> (snd (handleStatusChange api task newStatus (ui, sm)) \<noteq> sm
      \<longrightarrow> \<not> strict_eq newStatus (task ''status'')
          \<and> (\<exists>response. updateTask api (task ''id'') (Map.empty(''status'' := newStatus))
                           = Inr response))
   \<and> (snd (handlePriorityChange api task newPriority (ui, sm)) \<noteq> sm
      \<longrightarrow> \<not> strict_eq newPriority (task ''priority'')
          \<and> (\<exists>response. updateTask api (task ''id'') (Map.empty(''priority'' := newPriority))
                           = Inr response))
   \<and> (snd (handleDelete api task (ui, sm)) \<noteq> sm
      \<longrightarrow> (\<exists>response. deleteTask api (task ''id'') = Inr response))
   \<and> (snd (onSubmit D taskSchema api initialData d (fui, sm)) \<noteq> sm
      \<longrightarrow> success (validate taskSchema (validation_input D d))
          \<and> (\<exists>due' response. submit_dueDate D d = Inr due'
               \<and> (case initialData of
                     Some initial \<Rightarrow>
                       updateTask api (initial ''id'')
                         (submitData_of (validate taskSchema (validation_input D d)) due')
                   | None \<Rightarrow>
                       createTask api
                         (submitData_of (validate taskSchema (validation_input D d)) due'))
                  = Inr response))"
proof (intro conjI impI)
  assume "isl (updateTask api (task ''id'') (Map.empty(''status'' := newStatus)))"
  then show "snd (handleStatusChange api task newStatus (ui, sm)) = sm"
    by (rule handleStatusChange_failed)
next
  assume "isl (updateTask api (task ''id'') (Map.empty(''priority'' := newPriority)))"
  then show "snd (handlePriorityChange api task newPriority (ui, sm)) = sm"
    by (rule handlePriorityChange_failed)
next
  assume "isl (deleteTask api (task ''id''))"
  then show "snd (handleDelete api task (ui, sm)) = sm"
    by (rule handleDelete_failed)
next
  assume "submit_dueDate D d = Inr due
       \<and> isl (case initialData of
                 Some initial \<Rightarrow>
                   updateTask api (initial ''id'')
                     (submitData_of (validate taskSchema (validation_input D d)) due)
               | None \<Rightarrow>
                   createTask api
                     (submitData_of (validate taskSchema (validation_input D d)) due))"
  then show "snd (onSubmit D taskSchema api initialData d (fui, sm)) = sm"
    using onSubmit_failed by blast
next
  assume changed: "snd (handleStatusChange api task newStatus (ui, sm)) \<noteq> sm"
  from handleStatusChange_emitted [OF changed]
  show "\<not> strict_eq newStatus (task ''status'')"
    and "\<exists>response. updateTask api (task ''id'') (Map.empty(''status'' := newStatus))
                      = Inr response"
    by blast+
next
  assume changed: "snd (handlePriorityChange api task newPriority (ui, sm)) \<noteq> sm"
  from handlePriorityChange_emitted [OF changed]
  show "\<not> strict_eq newPriority (task ''priority'')"
    and "\<exists>response. updateTask api (task ''id'') (Map.empty(''priority'' := newPriority))
                      = Inr response"
    by blast+
next
  assume changed: "snd (handleDelete api task (ui, sm)) \<noteq> sm"
  from handleDelete_emitted [OF changed]
  show "\<exists>response. deleteTask api (task ''id'') = Inr response" .
next
  assume changed: "snd (onSubmit D taskSchema api initialData d (fui, sm)) \<noteq> sm"
  from onSubmit_emitted [OF changed]
  show "success (validate taskSchema (validation_input D d))"
    and "\<exists>due' response. submit_dueDate D d = Inr due'
               \<and> (case initialData of
                     Some initial \<Rightarrow>
                       updateTask api (initial ''id'')
                         (submitData_of (validate taskSchema (validation_input D d)) due')
                   | None \<Rightarrow>
                       createTask api
                         (submitData_of (validate taskSchema (validation_input D d)) due'))
                  = Inr response"
    by blast+
qed

lemma open_module_eq:
  "open_module = \<lparr>socket = Some open_socket, orphans = [], uncaught = []\<rparr>"
  by (simp add: open_module_def transport_connect_def initSocket_def initial_module_def
      new_socket_def on_def io_def listeners_on_def emit_def open_socket_def)

lemma accepted_status_change_emits:
  "snd (handleStatusChange (accepting_api task_a_done) task_a (Some (JStr ''Completed''))
          (idle_item, open_module))
   = \<lparr>socket = Some (emit (TaskUpdated (Some task_a_done)) open_socket), orphans = [],
      uncaught = []\<rparr>"
  by (simp add: handleStatusChange_def accepting_api_def ok_def data_of_def
      emitTaskUpdated_def emit_if_socket_def open_module_eq strict_eq_def task_a_def)

theorem emit_only_after_successful_write_witness:
  "isl (updateTask (rejecting_api unauthorized) (task_a ''id'')
          (Map.empty(''status'' := Some (JStr ''Completed''))))
   \<and> snd (handleStatusChange (rejecting_api unauthorized) task_a (Some (JStr ''Completed''))
            (idle_item, open_module)) = open_module
   \<and> snd (handlePriorityChange (rejecting_api unauthorized) task_a (Some (JStr ''Low''))
            (idle_item, open_module)) = open_module
   \<and> snd (handleDelete (rejecting_api unauthorized) task_a (idle_item, open_module))
       = open_module
   \<and> snd (onSubmit no_dates accept_all (rejecting_api unauthorized) None form_a_done
            (idle_form, open_module)) = open_module
   \<and> snd (onSubmit no_dates accept_all (rejecting_api unauthorized) (Some task_a) form_a_done
            (idle_form, open_module)) = open_module
   \<and> snd (handleStatusChange (accepting_api task_a_done) task_a (Some (JStr ''Completed''))
            (idle_item, open_module)) \<noteq> open_module
   \<and> (\<exists>response. updateTask (accepting_api task_a_done) (task_a ''id'')
                     (Map.empty(''status'' := Some (JStr ''Completed''))) = Inr response)"
proof -
  let ?rej = "rejecting_api unauthorized"
  let ?acc = "accepting_api task_a_done"
  have update_rejected: "isl (updateTask ?rej i x)" for i x
    by (simp add: rejecting_api_def)
  have create_rejected: "isl (createTask ?rej x)" for x
    by (simp add: rejecting_api_def)
  have delete_rejected: "isl (deleteTask ?rej i)" for i
    by (simp add: rejecting_api_def)
  have no_due: "submit_dueDate no_dates form_a_done = Inr JNull"
    by (simp add: submit_dueDate_def form_a_done_def)
  have changed: "snd (handleStatusChange ?acc task_a (Some (JStr ''Completed''))
                        (idle_item, open_module)) \<noteq> open_module"
    unfolding accepted_status_change_emits
    by (simp add: open_module_eq emit_def open_socket_def)
  note rejected =
    emit_only_after_successful_write [where api = ?rej and task = task_a
      and newStatus = "Some (JStr ''Completed'')" and newPriority = "Some (JStr ''Low'')"
      and ui = idle_item and sm = open_module and D = no_dates and d = form_a_done
      and due = JNull and initialData = None and taskSchema = accept_all and fui = idle_form]
  note rejected_edit =
    emit_only_after_successful_write [where api = ?rej and task = task_a
      and newStatus = "Some (JStr ''Completed'')" and newPriority = "Some (JStr ''Low'')"
      and ui = idle_item and sm = open_module and D = no_dates and d = form_a_done
      and due = JNull and initialData = "Some task_a" and taskSchema = accept_all
      and fui = idle_form]
  note accepted =
    emit_only_after_successful_write [where api = ?acc and task = task_a
      and newStatus = "Some (JStr ''Completed'')" and newPriority = "Some (JStr ''Low'')"
      and ui = idle_item and sm = open_module and D = no_dates and d = form_a_done
      and due = JNull and initialData = None and taskSchema = accept_all and fui = idle_form]
  have a: "snd (handleStatusChange ?rej task_a (Some (JStr ''Completed''))
                  (idle_item, open_module)) = open_module"
    using rejected update_rejected by blast
  have b: "snd (handlePriorityChange ?rej task_a (Some (JStr ''Low''))
                  (idle_item, open_module)) = open_module"
    using rejected update_rejected by blast
  have c: "snd (handleDelete ?rej task_a (idle_item, open_module)) = open_module"
    using rejected delete_rejected by blast
  have d: "snd (onSubmit no_dates accept_all ?rej None form_a_done (idle_form, open_module))
           = open_module"
    using rejected no_due create_rejected by simp
  have e: "snd (onSubmit no_dates accept_all ?rej (Some task_a) form_a_done
                  (idle_form, open_module)) = open_module"
    using rejected_edit no_due update_rejected by simp
  have f: "\<exists>response. updateTask ?acc (task_a ''id'')
                         (Map.empty(''status'' := Some (JStr ''Completed''))) = Inr response"
    using accepted changed by blast
  from update_rejected a b c d e changed f show ?thesis by blast
qed

section \<open>The overdue badge\<close>

lemma strict_eq_string: "strict_eq a (Some (JStr s)) = (a = Some (JStr s))"
  by (auto simp add: strict_eq_def)

text \<open>
  C9. A task is overdue at the instant \<open>now\<close> exactly when its \<open>dueDate\<close> is present (a
  truthy value, which the host reads as a valid instant), that instant is strictly
  earlier than \<open>now\<close>, and its status is not \<open>Completed\<close>. In particular: due one second
  ago with status \<open>To Do\<close> it is overdue; the same with status \<open>Completed\<close> it is not;
  due one hour ahead it is not, whatever its status.
\<close>

theorem isOverdue_iff:
  "(isOverdue D now t \<longleftrightarrow>
      truthy (t ''dueDate'')
      \<and> (\<exists>due. date_time D (t ''dueDate'') = Some due \<and> due < now)
      \<and> t ''status'' \<noteq> Some (JStr ''Completed''))
   \<and> (truthy (t ''dueDate'') \<and> date_time D (t ''dueDate'') = Some (now - 1000)
        \<and> t ''status'' = Some (JStr ''To Do'') \<longrightarrow> isOverdue D now t)
   \<and> (truthy (t ''dueDate'') \<and> date_time D (t ''dueDate'') = Some (now - 1000)
        \<and> t ''status'' = Some (JStr ''Completed'') \<longrightarrow> \<not> isOverdue D now t)
   \<and> (date_time D (t ''dueDate'') = Some (now + 3600000) \<longrightarrow> \<not> isOverdue D now t)"
  by (auto simp add: isOverdue_def strict_eq_string split: option.splits)

theorem isOverdue_iff_witness:
  "truthy (task_due ''dueDate'')
   \<and> date_time utc_dates (task_due ''dueDate'') = Some (1704067201000 - 1000)
   \<and> task_due ''status'' = Some (JStr ''To Do'')
   \<and> isOverdue utc_dates 1704067201000 task_due
   \<and> \<not> isOverdue utc_dates 1704067201000 (task_due(''status'' \<mapsto> JStr ''Completed''))
   \<and> \<not> isOverdue utc_dates (1704067200000 - 3600000) task_due"
proof -
  let ?done = "task_due(''status'' \<mapsto> JStr ''Completed'')"
  have present: "truthy (task_due ''dueDate'')"
    by (simp add: task_due_def)
  have past: "date_time utc_dates (task_due ''dueDate'') = Some (1704067201000 - 1000)"
    by (simp add: task_due_def utc_dates_def)
  have todo: "task_due ''status'' = Some (JStr ''To Do'')"
    by (simp add: task_due_def)
  have present': "truthy (?done ''dueDate'')"
    by (simp add: task_due_def)
  have past': "date_time utc_dates (?done ''dueDate'') = Some (1704067201000 - 1000)"
    by (simp add: task_due_def utc_dates_def)
  have completed: "?done ''status'' = Some (JStr ''Completed'')"
    by simp
  have future: "date_time utc_dates (task_due ''dueDate'')
                = Some ((1704067200000 - 3600000) + 3600000)"
    by (simp add: task_due_def utc_dates_def)
  from isOverdue_iff [of utc_dates 1704067201000 task_due] present past todo
  have a: "isOverdue utc_dates 1704067201000 task_due" by blast
  from isOverdue_iff [of utc_dates 1704067201000 ?done] present' past' completed
  have b: "\<not> isOverdue utc_dates 1704067201000 ?done" by blast
  from isOverdue_iff [of utc_dates "1704067200000 - 3600000" task_due] future
  have c: "\<not> isOverdue utc_dates (1704067200000 - 3600000) task_due" by blast
  from present past todo a b c show ?thesis by blast
qed

section \<open>The socket singleton\<close>

text \<open>
  While the socket of the module is connected, \<open>initSocket\<close> creates no instance: it
  emits \<open>user-join\<close> on the existing socket and returns it.
\<close>

lemma initSocket_while_connected:
  assumes "socket sm = Some s" and "connected s"
  shows "initSocket userId sm
           = (emit (UserJoin userId) s, sm\<lparr>socket := Some (emit (UserJoin userId) s)\<rparr>)"
    and "length (instances (snd (initSocket userId sm))) = length (instances sm)"
  using assms by (simp_all add: initSocket_def Let_def instances_def)

lemma twice_before_connect:
  "snd (initSocket (Some (JStr ''u1'')) (snd (initSocket (Some (JStr ''u1'')) initial_module)))
   = \<lparr>socket = Some (new_socket (Some (JStr ''u1''))),
      orphans = [new_socket (Some (JStr ''u1''))], uncaught = []\<rparr>"
  by (simp add: initSocket_def initial_module_def new_socket_def on_def io_def)

text \<open>
  C7 on the code. \<open>initSocket('u1')\<close> is called twice in a session before the first
  socket has connected. The second call creates a second instance and disconnects none:
  two instances are alive, the module variable holding the second. When both connect,
  the first one first, each connect listener emits \<open>user-join\<close> on the module variable:
  the second instance has sent it twice, and the first instance, connected, has
  announced nothing.
\<close>

theorem initSocket_twice_before_connect_leaks:
  "length (instances (snd (initSocket (Some (JStr ''u1''))
             (snd (initSocket (Some (JStr ''u1'')) initial_module))))) = 2
   \<and> map_option sent (socket (fold transport_step [OrphanConnect 0, Connect]
         (snd (initSocket (Some (JStr ''u1''))
            (snd (initSocket (Some (JStr ''u1'')) initial_module))))))
       = Some [UserJoin (Some (JStr ''u1'')), UserJoin (Some (JStr ''u1''))]
   \<and> map (\<lambda>t. (connected t, sent t)) (orphans (fold transport_step [OrphanConnect 0, Connect]
         (snd (initSocket (Some (JStr ''u1''))
            (snd (initSocket (Some (JStr ''u1'')) initial_module))))))
       = [(True, [])]"
  unfolding twice_before_connect
  by (simp add: instances_def transport_connect_def orphan_connect_def listeners_on_def
      new_socket_def on_def io_def emit_def)

section \<open>The event of an edit, and the value of a registration\<close>

text \<open>
  C6 on the code. The store accepts the edit of task \<open>a\<close> and answers with the updated
  task. Submitted through the form, the edit is followed by \<open>task-created\<close> with the
  updated task on the socket; the same write made by \<open>handleStatusChange\<close> is followed by
  \<open>task-updated\<close>.
\<close>

theorem edit_through_form_emits_task_created:
  "updateTask (accepting_api task_a_done) (task_a ''id'')
       (submitData_of (validate accept_all (validation_input no_dates form_a_done)) JNull)
     = ok task_a_done
   \<and> map_option sent (socket (snd (onSubmit no_dates accept_all (accepting_api task_a_done)
        (Some task_a) form_a_done (idle_form, open_module))))
     = Some [UserJoin (Some (JStr ''u1'')), TaskCreated (Some task_a_done)]
   \<and> map_option sent (socket (snd (handleStatusChange (accepting_api task_a_done) task_a
        (Some (JStr ''Completed'')) (idle_item, open_module))))
     = Some [UserJoin (Some (JStr ''u1'')), TaskUpdated (Some task_a_done)]"
  by (simp add: onSubmit_def Let_def validate_def accept_all_def validation_input_def
      submit_dueDate_def accepting_api_def ok_def data_of_def emitTaskCreated_def
      emit_if_socket_def open_module_eq open_socket_def emit_def handleStatusChange_def
      emitTaskUpdated_def strict_eq_def task_a_def form_a_done_def)

text \<open>
  C8 on the code. On an open socket each registration function returns \<open>undefined\<close>. The
  socket effect of \<open>useTasks\<close> registers its three callbacks; its cleanup, which calls what
  the registrations returned, leaves all three registered.
\<close>

theorem registration_returns_undefined:
  "fst (onTaskUpdated 1 open_module) = None
   \<and> fst (onTaskCreated 2 open_module) = None
   \<and> fst (onTaskDeleted 3 open_module) = None
   \<and> fst (onAssignmentNotification 4 open_module) = None
   \<and> is_registered ''task-updated'' 1 (snd (socket_effect 1 2 3 open_module))
   \<and> is_registered ''task-updated'' 1
        (socket_effect_cleanup (fst (socket_effect 1 2 3 open_module))
           (snd (socket_effect 1 2 3 open_module)))
   \<and> is_registered ''task-created'' 2
        (socket_effect_cleanup (fst (socket_effect 1 2 3 open_module))
           (snd (socket_effect 1 2 3 open_module)))
   \<and> is_registered ''task-deleted'' 3
        (socket_effect_cleanup (fst (socket_effect 1 2 3 open_module))
           (snd (socket_effect 1 2 3 open_module)))"
  by (simp add: onTaskUpdated_def onTaskCreated_def onTaskDeleted_def
      onAssignmentNotification_def on_if_socket_def socket_effect_def
      socket_effect_cleanup_def call_optional_def is_registered_def open_module_eq
      open_socket_def on_def)

end
